theory Spec2Isabelle
  imports Complex_Main "HOL-Library.Word"
begin

section \<open>Materialized commands (\<open>rmi_driver::Command\<close>)\<close>

text \<open>
  Modelled from the spec: the enumeration \<open>Command::CommandType\<close> is declared in
  \<open>rmi_driver/commands.h\<close>, which is not part of the sources at hand. The spec gives it two
  values, one for commands that block the controller and one for those that do not.
\<close>

datatype CommandType = Motion | Informational

text \<open>
  The members of \<open>Command\<close> read and written by \<open>commands.cpp\<close>: \<open>type_\<close>,
  \<open>command_id_\<close> (a C++ \<open>int\<close>) and \<open>full_command_\<close>, a vector of pairs of strings whose
  first element is the command verb. A \<open>std::string\<close> is a list of bytes.
\<close>

type_synonym entry = "string \<times> string"

record Command =
  m_type :: CommandType
  m_command_id :: "32 word"
  m_full_command :: "entry list"

text \<open>
  What can go wrong inside the operations below: \<open>operator[]\<close> of a vector used past the
  end (undefined behaviour in C++, no exception is raised), and the call of an empty
  \<open>std::function\<close> (which throws \<open>std::bad_function_call\<close>).
\<close>

datatype fault = OutOfBounds nat nat | BadFunctionCall

subsection \<open>\<open>Command::checkResponse\<close>\<close>

text \<open>
  \<open>std::string::compare\<close>: the bytes are compared as unsigned values over the common
  prefix, and the lengths decide when the common prefix is equal. Only the sign of the
  result is fixed by the standard; the model returns \<open>-1\<close>, \<open>0\<close> or \<open>1\<close>.
\<close>

fun string_compare :: "string \<Rightarrow> string \<Rightarrow> int" where
  "string_compare [] [] = 0"
| "string_compare [] (y # ys) = - 1"
| "string_compare (x # xs) [] = 1"
| "string_compare (x # xs) (y # ys) =
     (if (of_char x :: nat) < of_char y then - 1
      else if (of_char y :: nat) < of_char x then 1
      else string_compare xs ys)"

definition checkResponse :: "string \<Rightarrow> bool" where
  "checkResponse response =
     (if string_compare response ''error'' \<noteq> 0 then True else False)"

subsection \<open>\<open>Command::toString\<close>\<close>

text \<open>
  The range-for loop over \<open>full_command_\<close>, writing to the output string stream \<open>oss\<close>.
  The stream is the accumulated text.
\<close>

fun toString_loop :: "entry list \<Rightarrow> string \<Rightarrow> string" where
  "toString_loop [] oss = oss"
| "toString_loop (cmd # rest) oss =
     (let oss1 = oss @ fst cmd;
          oss2 = (if length (snd cmd) > 0 then oss1 @ '' : '' @ snd cmd else oss1);
          oss3 = oss2 @ '';''
      in toString_loop rest oss3)"

definition toString :: "bool \<Rightarrow> Command \<Rightarrow> string" where
  "toString append_newline c =
     (let oss = toString_loop (m_full_command c) [];
          oss' = (if append_newline then oss @ [CHR 0x0A] else oss)
      in oss')"

text \<open>
  The rendering as the specification words it: an entry is its key alone when the value is
  empty and key, \<open>" : "\<close>, value otherwise; every entry is followed by \<open>";"\<close>; a newline
  closes the telegram on request.
\<close>

definition spec_entry :: "entry \<Rightarrow> string" where
  "spec_entry e = (if snd e = [] then fst e else fst e @ '' : '' @ snd e)"

definition spec_toString :: "bool \<Rightarrow> entry list \<Rightarrow> string" where
  "spec_toString append_newline es =
     concat (map (\<lambda>e. spec_entry e @ '';'') es) @ (if append_newline then [CHR 0x0A] else [])"

subsection \<open>\<open>Command::makeCommand\<close> and \<open>Command::addParam\<close>\<close>

text \<open>
  \<open>v[i] = x\<close> on a \<open>std::vector\<close>: inside the vector the slot is overwritten; past the
  end the behaviour is undefined, which the model reports as a fault carrying the index and
  the size (the vector does not grow).
\<close>

definition vector_assign :: "'a list \<Rightarrow> nat \<Rightarrow> 'a \<Rightarrow> fault + 'a list" where
  "vector_assign v i x =
     (if i < length v then Inr (v[i := x]) else Inl (OutOfBounds i (length v)))"

definition emplace_back :: "'a list \<Rightarrow> 'a \<Rightarrow> 'a list" where
  "emplace_back v x = v @ [x]"

definition makeCommand ::
  "CommandType \<Rightarrow> string \<Rightarrow> string \<Rightarrow> bool \<Rightarrow> Command \<Rightarrow> fault + Command" where
  "makeCommand type command params erase_params c =
     (let c1 = c\<lparr>m_type := type\<rparr>;
          c2 = (if erase_params then c1\<lparr>m_full_command := []\<rparr> else c1)
      in if length (m_full_command c2) > 0
         then (case vector_assign (m_full_command c2) 0 (command, params) of
                 Inl e \<Rightarrow> Inl e
               | Inr v \<Rightarrow> Inr (c2\<lparr>m_full_command := v\<rparr>))
         else Inr (c2\<lparr>m_full_command := emplace_back (m_full_command c2) (command, params)\<rparr>))"

definition addParam :: "string \<Rightarrow> string \<Rightarrow> Command \<Rightarrow> fault + Command" where
  "addParam param param_vals c =
     (if m_full_command c = []
      then (case vector_assign (m_full_command c) 1 (param, param_vals) of
              Inl e \<Rightarrow> Inl e
            | Inr v \<Rightarrow> Inr (c\<lparr>m_full_command := v\<rparr>))
      else Inr (c\<lparr>m_full_command := emplace_back (m_full_command c) (param, param_vals)\<rparr>))"

section \<open>Incoming messages (\<open>robot_movement_interface::Command\<close>)\<close>

text \<open>
  Modelled from the spec: the message type is declared by the package
  \<open>robot_movement_interface\<close>, outside the sources at hand. Its fields are the ones the spec
  lists: textual tags, sequences of floating-point numbers and the integer \<open>command_id\<close>.
  The type \<open>'f\<close> stands for the floating-point numbers; nothing below looks inside them.
\<close>

record 'f rmi_Command =
  command_id :: "32 word"
  command_type :: string
  pose_reference :: string
  pose_type :: string
  pose :: "'f list"
  velocity_type :: string
  velocity :: "'f list"
  acceleration_type :: string
  acceleration :: "'f list"
  blending_type :: string
  blending :: "'f list"
  additional_parameters :: "string list"

text \<open>
  Modelled from the spec: \<open>util::usedAndNotEqual\<close> is declared in \<open>rmi_driver/util.h\<close>,
  which is not part of the sources at hand. By the spec it holds iff the sample's field is
  present (a non-empty string, a non-empty sequence) and the two values differ, strings
  byte by byte and sequences in length or in some element. One definition on lists covers
  both overloads.
\<close>

definition usedAndNotEqual :: "'a list \<Rightarrow> 'a list \<Rightarrow> bool" where
  "usedAndNotEqual sample msg = (length sample > 0 \<and> sample \<noteq> msg)"

section \<open>Handlers (\<open>CommandHandler\<close>) and the registry (\<open>CommandRegister\<close>)\<close>

text \<open>
  A \<open>CommandPtr\<close> is a shared pointer to a \<open>Command\<close> and may be null: \<open>Command option\<close>.
  The member \<open>process_func_\<close> is a \<open>std::function\<close> from messages to \<open>CommandPtr\<close> and may
  be empty.
\<close>

type_synonym CommandPtr = "Command option"

record 'f CommandHandler =
  sample_command :: "'f rmi_Command"
  process_func :: "('f rmi_Command \<Rightarrow> CommandPtr) option"

text \<open>The constructor stores the sample and the transform as given.\<close>

definition new_CommandHandler ::
  "'f rmi_Command \<Rightarrow> ('f rmi_Command \<Rightarrow> CommandPtr) option \<Rightarrow> 'f CommandHandler" where
  "new_CommandHandler sample f = \<lparr>sample_command = sample, process_func = f\<rparr>"

subsection \<open>\<open>CommandHandler::operator==\<close>\<close>

definition operator_eq :: "'f CommandHandler \<Rightarrow> 'f rmi_Command \<Rightarrow> bool" where
  "operator_eq h cmd_msg =
     (if usedAndNotEqual (command_type (sample_command h)) (command_type cmd_msg) then False
      else if usedAndNotEqual (pose_reference (sample_command h)) (pose_reference cmd_msg)
        then False
      else if usedAndNotEqual (pose_type (sample_command h)) (pose_type cmd_msg) then False
      else if usedAndNotEqual (pose (sample_command h)) (pose cmd_msg) then False
      else if usedAndNotEqual (velocity_type (sample_command h)) (velocity_type cmd_msg)
        then False
      else True)"

subsection \<open>\<open>CommandRegister::findHandler\<close>\<close>

text \<open>
  \<open>std::find_if\<close> walks the range from its beginning and returns the iterator of the first
  element that satisfies the predicate, the end iterator when there is none. An iterator is
  its distance from the beginning, so the end iterator is the length.
\<close>

fun find_if :: "('a \<Rightarrow> bool) \<Rightarrow> 'a list \<Rightarrow> nat" where
  "find_if p [] = 0"
| "find_if p (x # xs) = (if p x then 0 else Suc (find_if p xs))"

text \<open>
  The registry holds its handlers in registration order. \<open>findHandler\<close> returns a pointer to
  the handler found, or the null pointer.
\<close>

record 'f CommandRegister =
  handlers :: "'f CommandHandler list"

definition findHandler :: "'f CommandRegister \<Rightarrow> 'f rmi_Command \<Rightarrow> 'f CommandHandler option" where
  "findHandler reg msg_cmd =
     (let foundItem = find_if (\<lambda>p. operator_eq p msg_cmd) (handlers reg)
      in if foundItem \<noteq> length (handlers reg) then Some (handlers reg ! foundItem)
         else None)"

subsection \<open>\<open>CommandHandler::processMsg\<close>\<close>

text \<open>
  Calling a \<open>std::function\<close>: the empty function throws, any other returns what its target
  returns.
\<close>

definition call_function :: "('a \<Rightarrow> 'b) option \<Rightarrow> 'a \<Rightarrow> fault + 'b" where
  "call_function f x = (case f of None \<Rightarrow> Inl BadFunctionCall | Some g \<Rightarrow> Inr (g x))"

text \<open>
  The diagnostics written with \<open>ROS_ERROR_STREAM\<close> are the state: \<open>processMsg\<close> takes the
  log so far and returns it with its result. The result is a fault or a \<open>CommandPtr\<close>;
  \<open>return false\<close> in a function returning a shared pointer gives the null pointer.
\<close>

definition processMsg ::
  "'f CommandHandler \<Rightarrow> 'f rmi_Command \<Rightarrow> string list \<Rightarrow> (fault + CommandPtr) \<times> string list" where
  "processMsg h cmd_msg rosout =
     (if process_func h = None
      then (Inr None,
            rosout @ [''Base CommandHandler::processMsg was called but the process function was not set!''])
      else (let ret = call_function (process_func h) cmd_msg in (ret, rosout)))"

section \<open>Vocabulary of the matching laws\<close>

text \<open>
  The default-constructed message: every tag and every sequence empty, the id zero.
\<close>

definition default_msg :: "'f rmi_Command" where
  "default_msg =
     \<lparr>command_id = 0, command_type = [], pose_reference = [], pose_type = [], pose = [],
      velocity_type = [], velocity = [], acceleration_type = [], acceleration = [],
      blending_type = [], blending = [], additional_parameters = []\<rparr>"

text \<open>
  The fields of a message that can be present or absent, which of them a message populates
  (a non-empty string, a non-empty sequence), and when two messages carry the same value
  in a field.
\<close>

datatype field =
  F_command_type | F_pose_reference | F_pose_type | F_pose | F_velocity_type | F_velocity
| F_acceleration_type | F_acceleration | F_blending_type | F_blending
| F_additional_parameters

definition all_fields :: "field list" where
  "all_fields =
     [F_command_type, F_pose_reference, F_pose_type, F_pose, F_velocity_type, F_velocity,
      F_acceleration_type, F_acceleration, F_blending_type, F_blending,
      F_additional_parameters]"

fun populates :: "'f rmi_Command \<Rightarrow> field \<Rightarrow> bool" where
  "populates s F_command_type = (command_type s \<noteq> [])"
| "populates s F_pose_reference = (pose_reference s \<noteq> [])"
| "populates s F_pose_type = (pose_type s \<noteq> [])"
| "populates s F_pose = (pose s \<noteq> [])"
| "populates s F_velocity_type = (velocity_type s \<noteq> [])"
| "populates s F_velocity = (velocity s \<noteq> [])"
| "populates s F_acceleration_type = (acceleration_type s \<noteq> [])"
| "populates s F_acceleration = (acceleration s \<noteq> [])"
| "populates s F_blending_type = (blending_type s \<noteq> [])"
| "populates s F_blending = (blending s \<noteq> [])"
| "populates s F_additional_parameters = (additional_parameters s \<noteq> [])"

definition populated :: "'f rmi_Command \<Rightarrow> field set" where
  "populated s = set (filter (populates s) all_fields)"

fun same_value :: "field \<Rightarrow> 'f rmi_Command \<Rightarrow> 'f rmi_Command \<Rightarrow> bool" where
  "same_value F_command_type a b = (command_type a = command_type b)"
| "same_value F_pose_reference a b = (pose_reference a = pose_reference b)"
| "same_value F_pose_type a b = (pose_type a = pose_type b)"
| "same_value F_pose a b = (pose a = pose b)"
| "same_value F_velocity_type a b = (velocity_type a = velocity_type b)"
| "same_value F_velocity a b = (velocity a = velocity b)"
| "same_value F_acceleration_type a b = (acceleration_type a = acceleration_type b)"
| "same_value F_acceleration a b = (acceleration a = acceleration b)"
| "same_value F_blending_type a b = (blending_type a = blending_type b)"
| "same_value F_blending a b = (blending a = blending b)"
| "same_value F_additional_parameters a b = (additional_parameters a = additional_parameters b)"

section \<open>Scenarios\<close>

text \<open>
  The messages, samples and handlers of the scenarios, with the floating-point numbers read
  as reals: a joint move with id 7, a linear move, a setting; a transform that emits the
  verb \<open>ptp\<close> and copies the id.
\<close>

definition msg_ptp_joints :: "real rmi_Command" where
  "msg_ptp_joints =
     default_msg\<lparr>command_id := 7, command_type := ''PTP'', pose_type := ''JOINTS'',
                 pose := [0, 1.5, - 2, 0, 0, 0]\<rparr>"

definition msg_lin :: "real rmi_Command" where
  "msg_lin = default_msg\<lparr>command_type := ''LIN''\<rparr>"

definition msg_setting :: "real rmi_Command" where
  "msg_setting = default_msg\<lparr>command_type := ''SETTING''\<rparr>"

definition ptp_transform :: "real rmi_Command \<Rightarrow> CommandPtr" where
  "ptp_transform m =
     Some \<lparr>m_type = Motion, m_command_id = command_id m, m_full_command = [(''ptp'', [])]\<rparr>"

definition h_ptp_joints :: "real CommandHandler" where
  "h_ptp_joints =
     new_CommandHandler (default_msg\<lparr>command_type := ''PTP'', pose_type := ''JOINTS''\<rparr>)
       (Some ptp_transform)"

definition h_ptp :: "real CommandHandler" where
  "h_ptp = new_CommandHandler (default_msg\<lparr>command_type := ''PTP''\<rparr>) (Some ptp_transform)"

definition h_setting :: "real CommandHandler" where
  "h_setting = new_CommandHandler (default_msg\<lparr>command_type := ''SETTING''\<rparr>) None"

definition h_catch_all :: "real CommandHandler" where
  "h_catch_all = new_CommandHandler default_msg None"

definition h_velocity :: "real CommandHandler" where
  "h_velocity = new_CommandHandler (default_msg\<lparr>velocity := [200]\<rparr>) None"

definition cmd_ptp :: Command where
  "cmd_ptp =
     \<lparr>m_type = Motion, m_command_id = 7,
      m_full_command = [(''ptp'', []), (''J'', ''1 2 3''), (''velocity'', ''10'')]\<rparr>"

definition cmd_blank :: Command where
  "cmd_blank = \<lparr>m_type = Motion, m_command_id = 7, m_full_command = []\<rparr>"

section \<open>Reply acceptance\<close>

lemma string_compare_eq_0: "string_compare s t = 0 \<longleftrightarrow> s = t"
proof (induction s t rule: string_compare.induct)
  case (4 x xs y ys)
  have inj: "(of_char x :: nat) = of_char y \<longleftrightarrow> x = y"
    by (metis char_of_char)
  show ?case
  proof (cases "(of_char x :: nat) < of_char y \<or> (of_char y :: nat) < of_char x")
    case True
    then have "x \<noteq> y" by auto
    with True show ?thesis by auto
  next
    case False
    then have "(of_char x :: nat) = of_char y" by auto
    with inj have "x = y" by simp
    with False 4 show ?thesis by simp
  qed
qed simp_all

text \<open>
  Claim C4. \<open>checkResponse\<close> rejects a reply exactly when the reply is the five bytes
  \<open>error\<close>; every other reply is accepted, the empty reply and \<open>error\<close> followed by a space
  among them.
\<close>

theorem checkResponse_false_iff_error:
  "(checkResponse s = False) = (s = ''error'')
   \<and> checkResponse '''' = True
   \<and> checkResponse ''error '' = True"
  by (simp add: checkResponse_def string_compare_eq_0)

section \<open>Wire text\<close>

lemma toString_loop_spec:
  "toString_loop es oss = oss @ concat (map (\<lambda>e. spec_entry e @ '';'') es)"
  by (induction es arbitrary: oss) (simp_all add: spec_entry_def Let_def)

text \<open>
  Claim C5. \<open>toString\<close> writes the entries in insertion order, an entry with an empty value as
  its key and any other as key, \<open>" : "\<close>, value, a \<open>";"\<close> after every entry, and one newline
  at the end exactly when asked for. A command without entries gives the empty text, or the
  newline alone.
\<close>

theorem toString_spec:
  "toString append_newline c = spec_toString append_newline (m_full_command c)
   \<and> toString append_newline (c\<lparr>m_full_command := []\<rparr>)
       = (if append_newline then [CHR 0x0A] else [])"
  by (simp add: toString_def spec_toString_def toString_loop_spec)

lemma toString_example:
  "toString True cmd_ptp = ''ptp;J : 1 2 3;velocity : 10;'' @ [CHR 0x0A]"
  by (simp add: toString_def cmd_ptp_def)

section \<open>Building a command\<close>

text \<open>
  Claim C10. On a command that has entries, \<open>makeCommand\<close> without erasing overwrites the
  first entry with the verb and its parameters and leaves the entries after it as they
  were, in value and order (only the classification tag changes besides); with erasing, the
  entries become the single pair of verb and parameters, whatever they were. No index leaves
  the vector.
\<close>

theorem makeCommand_frame:
  "(m_full_command c \<noteq> [] \<longrightarrow>
      makeCommand type verb params False c
        = Inr (c\<lparr>m_type := type, m_full_command := (verb, params) # tl (m_full_command c)\<rparr>))
   \<and> makeCommand type verb params True c
        = Inr (c\<lparr>m_type := type, m_full_command := [(verb, params)]\<rparr>)"
  by (cases "m_full_command c")
     (simp_all add: makeCommand_def vector_assign_def emplace_back_def)

theorem makeCommand_frame_witness:
  "m_full_command cmd_ptp \<noteq> []
   \<and> makeCommand Informational ''lin'' ''4 5'' False cmd_ptp
       = Inr \<lparr>m_type = Informational, m_command_id = 7,
              m_full_command = [(''lin'', ''4 5''), (''J'', ''1 2 3''), (''velocity'', ''10'')]\<rparr>
   \<and> makeCommand Informational ''lin'' ''4 5'' True cmd_ptp
       = Inr \<lparr>m_type = Informational, m_command_id = 7,
              m_full_command = [(''lin'', ''4 5'')]\<rparr>"
proof -
  have ne: "m_full_command cmd_ptp \<noteq> []"
    by (simp add: cmd_ptp_def)
  with makeCommand_frame [of cmd_ptp Informational "''lin''" "''4 5''"]
  show ?thesis by (simp add: cmd_ptp_def)
qed

lemma addParam_nonempty:
  "m_full_command c \<noteq> [] \<Longrightarrow>
     addParam k v c = Inr (c\<lparr>m_full_command := m_full_command c @ [(k, v)]\<rparr>)"
  by (simp add: addParam_def emplace_back_def)

lemma addParam_empty:
  "m_full_command c = [] \<Longrightarrow> addParam k v c = Inl (OutOfBounds 1 0)"
  by (simp add: addParam_def vector_assign_def)

text \<open>
  Claim C2. \<open>addParam\<close> should append the pair also to a command without entries. On such a
  command the code takes the branch that assigns to index 1 of the empty vector: nothing is
  appended, the access is out of bounds.
\<close>

theorem addParam_empty_faults:
  "addParam ''velocity'' ''10'' cmd_blank = Inl (OutOfBounds 1 0)
   \<and> (\<forall>c'. addParam ''velocity'' ''10'' cmd_blank
          \<noteq> Inr (c'\<lparr>m_full_command := m_full_command cmd_blank @ [(''velocity'', ''10'')]\<rparr>))"
  by (simp add: addParam_def vector_assign_def cmd_blank_def)

section \<open>Matching\<close>

lemma operator_eq_iff:
  "operator_eq h m \<longleftrightarrow>
     \<not> usedAndNotEqual (command_type (sample_command h)) (command_type m)
   \<and> \<not> usedAndNotEqual (pose_reference (sample_command h)) (pose_reference m)
   \<and> \<not> usedAndNotEqual (pose_type (sample_command h)) (pose_type m)
   \<and> \<not> usedAndNotEqual (pose (sample_command h)) (pose m)
   \<and> \<not> usedAndNotEqual (velocity_type (sample_command h)) (velocity_type m)"
  by (simp add: operator_eq_def)

lemma populated_iff: "f \<in> populated s \<longleftrightarrow> populates s f"
  by (cases f) (simp_all add: populated_def all_fields_def)

text \<open>
  Claim C1. The match predicate should be the conjunction over six fields, \<open>velocity\<close> among
  them. The code compares five and never looks at \<open>velocity\<close>: a sample that asks for one
  velocity value accepts a message without any, although \<open>usedAndNotEqual\<close> holds of the two
  velocity fields.
\<close>

theorem operator_eq_ignores_velocity:
  "operator_eq h_velocity msg_ptp_joints
   \<and> usedAndNotEqual (velocity (sample_command h_velocity)) (velocity msg_ptp_joints)
   \<and> \<not> (\<not> usedAndNotEqual (command_type (sample_command h_velocity)) (command_type msg_ptp_joints)
        \<and> \<not> usedAndNotEqual (pose_reference (sample_command h_velocity)) (pose_reference msg_ptp_joints)
        \<and> \<not> usedAndNotEqual (pose_type (sample_command h_velocity)) (pose_type msg_ptp_joints)
        \<and> \<not> usedAndNotEqual (pose (sample_command h_velocity)) (pose msg_ptp_joints)
        \<and> \<not> usedAndNotEqual (velocity_type (sample_command h_velocity)) (velocity_type msg_ptp_joints)
        \<and> \<not> usedAndNotEqual (velocity (sample_command h_velocity)) (velocity msg_ptp_joints))"
  by (simp add: operator_eq_def usedAndNotEqual_def h_velocity_def new_CommandHandler_def
      msg_ptp_joints_def default_msg_def)

text \<open>
  Claim C7, the wildcard law. A handler whose sample populates no field, every string and
  every sequence of it empty, matches every message.
\<close>

theorem wildcard_law: "populated (sample_command h) = {} \<Longrightarrow> operator_eq h m"
proof -
  assume e: "populated (sample_command h) = {}"
  have "\<not> populates (sample_command h) f" for f
    using e populated_iff [of f "sample_command h"] by simp
  from this [of F_command_type] this [of F_pose_reference] this [of F_pose_type]
    this [of F_pose] this [of F_velocity_type]
  show ?thesis by (simp add: operator_eq_iff usedAndNotEqual_def)
qed

theorem wildcard_law_witness:
  "populated (sample_command h_catch_all) = {} \<and> operator_eq h_catch_all msg_ptp_joints"
proof -
  have e: "populated (sample_command h_catch_all) = {}"
    by (simp add: populated_def all_fields_def h_catch_all_def new_CommandHandler_def
        default_msg_def)
  from e wildcard_law [OF e, of msg_ptp_joints] show ?thesis by simp
qed

text \<open>
  Claim C8, the specificity law. When sample \<open>A\<close> populates strictly more fields than sample
  \<open>B\<close> and carries \<open>B\<close>'s value in every field that \<open>B\<close> populates, a message matched by the
  handler of \<open>A\<close> is matched by the handler of \<open>B\<close>.
\<close>

theorem specificity_law:
  assumes sup: "populated (sample_command b) \<subset> populated (sample_command a)"
    and agree: "\<forall>f \<in> populated (sample_command b).
                  same_value f (sample_command a) (sample_command b)"
    and ma: "operator_eq a m"
  shows "operator_eq b m"
proof -
  let ?A = "sample_command a" and ?B = "sample_command b"
  have ag: "populates ?B f \<longrightarrow> same_value f ?A ?B" for f
    using agree by (simp add: populated_iff)
  from ma have ma': "\<not> usedAndNotEqual (command_type ?A) (command_type m)"
    "\<not> usedAndNotEqual (pose_reference ?A) (pose_reference m)"
    "\<not> usedAndNotEqual (pose_type ?A) (pose_type m)"
    "\<not> usedAndNotEqual (pose ?A) (pose m)"
    "\<not> usedAndNotEqual (velocity_type ?A) (velocity_type m)"
    by (simp_all add: operator_eq_iff)
  have "\<not> usedAndNotEqual (command_type ?B) (command_type m)"
    using ag [of F_command_type] ma'(1) by (auto simp: usedAndNotEqual_def)
  moreover have "\<not> usedAndNotEqual (pose_reference ?B) (pose_reference m)"
    using ag [of F_pose_reference] ma'(2) by (auto simp: usedAndNotEqual_def)
  moreover have "\<not> usedAndNotEqual (pose_type ?B) (pose_type m)"
    using ag [of F_pose_type] ma'(3) by (auto simp: usedAndNotEqual_def)
  moreover have "\<not> usedAndNotEqual (pose ?B) (pose m)"
    using ag [of F_pose] ma'(4) by (auto simp: usedAndNotEqual_def)
  moreover have "\<not> usedAndNotEqual (velocity_type ?B) (velocity_type m)"
    using ag [of F_velocity_type] ma'(5) by (auto simp: usedAndNotEqual_def)
  ultimately show ?thesis by (simp add: operator_eq_iff)
qed

theorem specificity_law_witness:
  "populated (sample_command h_ptp) \<subset> populated (sample_command h_ptp_joints)
   \<and> populated (sample_command h_ptp) = {F_command_type}
   \<and> same_value F_command_type (sample_command h_ptp_joints) (sample_command h_ptp)
   \<and> operator_eq h_ptp_joints msg_ptp_joints
   \<and> operator_eq h_ptp msg_ptp_joints"
proof -
  have sup: "populated (sample_command h_ptp) \<subset> populated (sample_command h_ptp_joints)"
    by (auto simp: populated_def all_fields_def h_ptp_def h_ptp_joints_def
        new_CommandHandler_def default_msg_def)
  have pop: "populated (sample_command h_ptp) = {F_command_type}"
    by (simp add: populated_def all_fields_def h_ptp_def new_CommandHandler_def
        default_msg_def)
  have same: "same_value F_command_type (sample_command h_ptp_joints) (sample_command h_ptp)"
    by (simp add: h_ptp_def h_ptp_joints_def new_CommandHandler_def)
  from pop same
  have agree: "\<forall>f \<in> populated (sample_command h_ptp).
                 same_value f (sample_command h_ptp_joints) (sample_command h_ptp)"
    by simp
  have ma: "operator_eq h_ptp_joints msg_ptp_joints"
    by (simp add: operator_eq_def usedAndNotEqual_def h_ptp_joints_def
        new_CommandHandler_def msg_ptp_joints_def default_msg_def)
  from sup pop same ma specificity_law [OF sup agree ma] show ?thesis by simp
qed

text \<open>
  Claim C9. Matching does not read \<open>command_id\<close>: two messages that differ in \<open>command_id\<close>
  alone, that is a message and the same message with any other id, get the same answer
  from every handler.
\<close>

theorem command_id_noninterference:
  "operator_eq h (m\<lparr>command_id := i\<rparr>) = operator_eq h m"
  by (simp add: operator_eq_def)

section \<open>Lookup in the registry\<close>

lemma find_if_le: "find_if p xs \<le> length xs"
  by (induction xs) simp_all

lemma find_if_end: "find_if p xs = length xs \<longleftrightarrow> (\<forall>x \<in> set xs. \<not> p x)"
  using find_if_le [of p] by (induction xs) (auto simp: Suc_le_eq)

lemma find_if_found:
  "find_if p xs = i \<and> i < length xs \<longleftrightarrow> i < length xs \<and> p (xs ! i) \<and> (\<forall>j<i. \<not> p (xs ! j))"
proof (induction xs arbitrary: i)
  case Nil
  then show ?case by simp
next
  case (Cons x xs)
  show ?case
  proof (cases "p x")
    case True
    then show ?thesis by (cases i) auto
  next
    case False
    show ?thesis
    proof (cases i)
      case 0
      with False show ?thesis by simp
    next
      case (Suc k)
      have "(\<forall>j<Suc k. \<not> p ((x # xs) ! j)) \<longleftrightarrow> (\<forall>j<k. \<not> p (xs ! j))"
        using False by (auto simp: less_Suc_eq_0_disj)
      with Suc False Cons.IH [of k] show ?thesis by simp
    qed
  qed
qed

text \<open>
  Claim C3. \<open>findHandler\<close> scans the handlers in registration order. It returns no handler
  exactly when no registered handler matches the message, and it returns \<open>h\<close> exactly when
  \<open>h\<close> stands at a position where it matches and no handler before that position matches.
  So of two matching handlers at positions \<open>i < j\<close> the later one is never preferred: the
  handler returned stands at a position \<open>k \<le> i\<close>, the first matching one.
\<close>

theorem findHandler_first_match:
  "(findHandler reg msg = None \<longleftrightarrow> (\<forall>h \<in> set (handlers reg). \<not> operator_eq h msg))
   \<and> (findHandler reg msg = Some h \<longleftrightarrow>
        (\<exists>i<length (handlers reg). handlers reg ! i = h \<and> operator_eq h msg
            \<and> (\<forall>j<i. \<not> operator_eq (handlers reg ! j) msg)))
   \<and> (i < j \<and> j < length (handlers reg)
        \<and> operator_eq (handlers reg ! i) msg \<and> operator_eq (handlers reg ! j) msg
      \<longrightarrow> (\<exists>k\<le>i. findHandler reg msg = Some (handlers reg ! k)
                \<and> (\<forall>l<k. \<not> operator_eq (handlers reg ! l) msg)))"
proof -
  let ?p = "\<lambda>p. operator_eq p msg"
  let ?hs = "handlers reg"
  let ?n = "find_if ?p ?hs"
  have none: "findHandler reg msg = None \<longleftrightarrow> (\<forall>h \<in> set ?hs. \<not> operator_eq h msg)"
    by (simp add: findHandler_def find_if_end)
  have some: "findHandler reg msg = Some h \<longleftrightarrow>
        (\<exists>i<length ?hs. ?hs ! i = h \<and> operator_eq h msg \<and> (\<forall>j<i. \<not> operator_eq (?hs ! j) msg))"
    (is "?l \<longleftrightarrow> ?r")
  proof
    assume ?l
    then have lt: "?n < length ?hs" and h: "?hs ! ?n = h"
      using find_if_le [of ?p ?hs] by (auto simp: findHandler_def Let_def split: if_splits)
    from lt find_if_found [of ?p ?hs ?n]
    have "?p (?hs ! ?n)" and "\<forall>j<?n. \<not> ?p (?hs ! j)" by simp_all
    with lt h show ?r by auto
  next
    assume ?r
    then obtain i where i: "i < length ?hs" "?hs ! i = h" "operator_eq h msg"
      "\<forall>j<i. \<not> operator_eq (?hs ! j) msg" by auto
    with find_if_found [of ?p ?hs i] have "?n = i" by simp
    with i show ?l by (simp add: findHandler_def)
  qed
  have tie: "\<exists>k\<le>i. findHandler reg msg = Some (?hs ! k) \<and> (\<forall>l<k. \<not> operator_eq (?hs ! l) msg)"
    if ij: "i < j" "j < length ?hs" and mi: "operator_eq (?hs ! i) msg"
  proof -
    from ij have il: "i < length ?hs" by simp
    with mi have "\<not> (\<forall>x \<in> set ?hs. \<not> ?p x)" using nth_mem [of i ?hs] by blast
    with find_if_end [of ?p ?hs] find_if_le [of ?p ?hs] have lt: "?n < length ?hs" by simp
    from lt find_if_found [of ?p ?hs ?n]
    have first: "\<forall>l<?n. \<not> ?p (?hs ! l)" by simp
    with mi have "?n \<le> i" by (meson not_le)
    moreover from lt have "findHandler reg msg = Some (?hs ! ?n)"
      by (simp add: findHandler_def)
    ultimately show ?thesis using first by blast
  qed
  from none some tie show ?thesis by blast
qed

theorem findHandler_first_match_witness:
  "(0::nat) < 1 \<and> 1 < length (handlers \<lparr>handlers = [h_setting, h_catch_all]\<rparr>)
   \<and> operator_eq (handlers \<lparr>handlers = [h_setting, h_catch_all]\<rparr> ! 0) msg_setting
   \<and> operator_eq (handlers \<lparr>handlers = [h_setting, h_catch_all]\<rparr> ! 1) msg_setting
   \<and> findHandler \<lparr>handlers = [h_setting, h_catch_all]\<rparr> msg_setting = Some h_setting
   \<and> findHandler \<lparr>handlers = [h_setting, h_catch_all]\<rparr> msg_lin = Some h_catch_all
   \<and> \<not> operator_eq h_ptp msg_lin
   \<and> findHandler \<lparr>handlers = [h_ptp]\<rparr> msg_lin = None"
proof -
  let ?reg = "\<lparr>handlers = [h_setting, h_catch_all]\<rparr>"
  have m0: "operator_eq h_setting msg_setting"
    by (simp add: operator_eq_def usedAndNotEqual_def h_setting_def new_CommandHandler_def
        msg_setting_def default_msg_def)
  have m1: "operator_eq h_catch_all msg"  for msg :: "real rmi_Command"
    by (simp add: operator_eq_def usedAndNotEqual_def h_catch_all_def new_CommandHandler_def
        default_msg_def)
  have n0: "\<not> operator_eq h_setting msg_lin"
    by (simp add: operator_eq_def usedAndNotEqual_def h_setting_def new_CommandHandler_def
        msg_lin_def default_msg_def)
  have n1: "\<not> operator_eq h_ptp msg_lin"
    by (simp add: operator_eq_def usedAndNotEqual_def h_ptp_def new_CommandHandler_def
        msg_lin_def default_msg_def)
  have hyp: "(0::nat) < 1 \<and> 1 < length (handlers ?reg)
      \<and> operator_eq (handlers ?reg ! 0) msg_setting \<and> operator_eq (handlers ?reg ! 1) msg_setting"
    using m0 m1 by simp
  from findHandler_first_match [of ?reg msg_setting h_setting 0 1] hyp
  have first: "findHandler ?reg msg_setting = Some h_setting" by simp
  have "\<exists>i<length (handlers ?reg). handlers ?reg ! i = h_catch_all
      \<and> operator_eq h_catch_all msg_lin \<and> (\<forall>j<i. \<not> operator_eq (handlers ?reg ! j) msg_lin)"
    using m1 n0 by (intro exI [of _ 1]) simp
  with findHandler_first_match [of ?reg msg_lin h_catch_all 0 1]
  have second: "findHandler ?reg msg_lin = Some h_catch_all" by blast
  have none: "\<forall>h \<in> set (handlers \<lparr>handlers = [h_ptp]\<rparr>). \<not> operator_eq h msg_lin"
    using n1 by simp
  with findHandler_first_match [of "\<lparr>handlers = [h_ptp]\<rparr>" msg_lin h_ptp 0 1]
  have third: "findHandler \<lparr>handlers = [h_ptp]\<rparr> msg_lin = None" by blast
  from hyp first second n1 third show ?thesis by blast
qed

section \<open>Running the transform\<close>

text \<open>
  Claim C6. With the transform set, \<open>processMsg\<close> returns what the transform returns on the
  message and writes no diagnostic. With the transform absent it writes the diagnostic of
  the programming error and returns the null command. In neither case does the call end in
  a fault: the empty function is never called.
\<close>

theorem processMsg_result:
  "(process_func h = Some f \<longrightarrow> processMsg h m rosout = (Inr (f m), rosout))
   \<and> (process_func h = None \<longrightarrow>
        processMsg h m rosout =
          (Inr None,
           rosout @ [''Base CommandHandler::processMsg was called but the process function was not set!'']))
   \<and> (\<forall>e. fst (processMsg h m rosout) \<noteq> Inl e)"
  by (cases "process_func h") (simp_all add: processMsg_def call_function_def)

theorem processMsg_result_witness:
  "process_func h_ptp = Some ptp_transform
   \<and> processMsg h_ptp msg_ptp_joints []
       = (Inr (Some \<lparr>m_type = Motion, m_command_id = 7, m_full_command = [(''ptp'', [])]\<rparr>), [])
   \<and> process_func h_setting = None
   \<and> processMsg h_setting msg_setting []
       = (Inr None,
          [''Base CommandHandler::processMsg was called but the process function was not set!''])"
proof -
  have s: "process_func h_ptp = Some ptp_transform"
    by (simp add: h_ptp_def new_CommandHandler_def)
  have n: "process_func h_setting = None"
    by (simp add: h_setting_def new_CommandHandler_def)
  have v: "ptp_transform msg_ptp_joints
      = Some \<lparr>m_type = Motion, m_command_id = 7, m_full_command = [(''ptp'', [])]\<rparr>"
    by (simp add: ptp_transform_def msg_ptp_joints_def default_msg_def)
  from processMsg_result [of h_ptp ptp_transform msg_ptp_joints "[]"]
    processMsg_result [of h_setting ptp_transform msg_setting "[]"] s n v
  show ?thesis by simp
qed

end
